theory Spec2Isabelle
  imports Complex_Main "HOL-Library.Multiset"
begin

section \<open>FedLab: parameter-server handlers and the client topology\<close>

text \<open>
  A shallow embedding of \<^verbatim>\<open>fedlab_core/server/handler.py\<close> and
  \<^verbatim>\<open>fedlab_core/client/topology.py\<close>.

  A serialized parameter tensor (one-dimensional, as \<^verbatim>\<open>ravel_model_params\<close> returns it) is a
  list of numbers. The numbers are real numbers: the arithmetic on tensors is taken exactly,
  the rounding of their floating-point values is not part of the model. The quorum is
  different: it is a truncated product of doubles, where a rounding error can change the
  result by one, so that product is modelled with its rounding (\<open>double_of\<close> below).
\<close>

subsection \<open>Messages, errors, results\<close>

text \<open>
  Modelled from the spec: \<^verbatim>\<open>MessageCode\<close> (imported from
  \<^verbatim>\<open>fedlab_core.utils.messaging\<close>) is an enumeration whose members are
  \<open>ParameterUpdate\<close>, \<open>ParameterRequest\<close>, \<open>GradientUpdate\<close> and \<open>Exit\<close>. The handlers end
  their case analysis with an \<^verbatim>\<open>else\<close> branch for any other value; \<open>OtherCode n\<close> stands
  for such a value (a further member of the enumeration, by ordinal).
\<close>

datatype MessageCode =
  ParameterUpdate | ParameterRequest | GradientUpdate | Exit | OtherCode nat

text \<open>The exceptions the modelled code can raise.\<close>

datatype error =
  NotImplementedError
| Exception string
| TypeError
| RuntimeError
| IndexError

text \<open>
  A method either returns, leaving the object in a new state (\<open>Inr\<close>), or raises, and then the
  state the object was left in at the \<^verbatim>\<open>raise\<close> is kept beside the exception (\<open>Inl\<close>).
\<close>

type_synonym 'a result = "(error \<times> 'a) + 'a"

type_synonym tensor = "real list"

subsection \<open>Python and torch primitives used by the handlers\<close>

text \<open>Python's \<^verbatim>\<open>int(x)\<close> on a number: truncation towards zero.\<close>

definition py_int :: "real \<Rightarrow> int" where
  "py_int x = (if 0 \<le> x then \<lfloor>x\<rfloor> else \<lceil>x\<rceil>)"

text \<open>
  Python's \<^verbatim>\<open>float\<close> is a double. Converting an \<^verbatim>\<open>int\<close> to a double, and multiplying two
  doubles, give the exact result rounded to 53 significant bits, ties to the even neighbour.
  \<open>double_of x\<close> is that rounding of the real number \<open>x\<close>. It is the double arithmetic for
  every result up to the largest double; beyond it the conversion of the \<^verbatim>\<open>int\<close> raises
  \<^verbatim>\<open>OverflowError\<close>, which is not modelled.
\<close>

definition round_half_even :: "real \<Rightarrow> int" where
  "round_half_even x =
     (let f = \<lfloor>x\<rfloor>
      in if x - of_int f < 1 / 2 then f
         else if 1 / 2 < x - of_int f then f + 1
         else if even f then f else f + 1)"

definition double_of :: "real \<Rightarrow> real" where
  "double_of x =
     (if x = 0 then 0
      else let u = 2 powr (of_int \<lfloor>log 2 \<bar>x\<bar>\<rfloor> - 52)
           in of_int (round_half_even (x / u)) * u)"

text \<open>
  Python list indexing \<^verbatim>\<open>xs[i]\<close>: an index in \<open>[-n, n)\<close> is valid, a negative one counts
  from the end; any other raises \<^verbatim>\<open>IndexError\<close> (\<open>None\<close> here).
\<close>

definition py_index :: "nat \<Rightarrow> int \<Rightarrow> nat option" where
  "py_index n i =
     (if 0 \<le> i \<and> i < int n then Some (nat i)
      else if i < 0 \<and> - int n \<le> i then Some (nat (int n + i))
      else None)"

text \<open>
  \<^verbatim>\<open>torch.stack(tensors)\<close> on a Python list of one-dimensional tensors: every element has to
  be a tensor (\<^verbatim>\<open>None\<close> is a \<^verbatim>\<open>TypeError\<close>), the list must not be empty and all tensors
  must have one size (\<^verbatim>\<open>RuntimeError\<close> otherwise). The result has one row per list element, in
  list order.
\<close>

definition torch_stack :: "tensor option list \<Rightarrow> error + tensor list" where
  "torch_stack ts =
     (if None \<in> set ts then Inl TypeError
      else if ts = [] then Inl RuntimeError
      else if \<exists>t \<in> set ts. length (the t) \<noteq> length (the (hd ts)) then Inl RuntimeError
      else Inr (map the ts))"

text \<open>\<^verbatim>\<open>torch.mean(rows, dim=0)\<close>: the mean of every column of a non-empty stack.\<close>

definition torch_mean_dim0 :: "tensor list \<Rightarrow> tensor" where
  "torch_mean_dim0 rows =
     map (\<lambda>j. (\<Sum>r\<leftarrow>rows. r ! j) / real (length rows)) [0..<length (hd rows)]"

text \<open>
  \<^verbatim>\<open>buf[:] = t\<close> on one-dimensional tensors: \<open>t\<close> is written over \<open>buf\<close> when the sizes
  agree, a tensor of size one is broadcast, any other size is a \<^verbatim>\<open>RuntimeError\<close>.
\<close>

definition assign_slice :: "tensor \<Rightarrow> tensor \<Rightarrow> error + tensor" where
  "assign_slice buf t =
     (if length t = length buf then Inr t
      else if length t = 1 then Inr (replicate (length buf) (hd t))
      else Inl RuntimeError)"

text \<open>
  Modelled from the spec: \<^verbatim>\<open>ravel_model_params\<close> and \<^verbatim>\<open>unravel_model_params\<close> (imported
  from \<^verbatim>\<open>fedlab_core.utils.serialization\<close>) are not part of the sources. The
  externally-managed model handle is represented by the vector of its parameters;
  \<^verbatim>\<open>ravel_model_params\<close> reads that vector and \<^verbatim>\<open>unravel_model_params(model, buffer)\<close>
  propagates the buffer into the handle, which is then in sync with the buffer.
\<close>

definition ravel_model_params :: "tensor \<Rightarrow> tensor" where
  "ravel_model_params model = model"

definition unravel_model_params :: "tensor \<Rightarrow> tensor \<Rightarrow> tensor" where
  "unravel_model_params model buf = buf"

subsection \<open>The abstract handler\<close>

record ParameterServerHandler =
  model :: tensor
  buffer :: tensor
  cuda :: bool

definition ParameterServerHandler_init :: "tensor \<Rightarrow> bool \<Rightarrow> ParameterServerHandler" where
  "ParameterServerHandler_init m c =
     \<lparr>model = m, buffer = ravel_model_params m, cuda = c\<rparr>"

text \<open>\<^verbatim>\<open>receive(self)\<close> and \<^verbatim>\<open>update(self, model_list)\<close> of the abstract class only raise.\<close>

definition ParameterServerHandler_receive ::
  "'a ParameterServerHandler_scheme \<Rightarrow> 'a ParameterServerHandler_scheme result" where
  "ParameterServerHandler_receive h = Inl (NotImplementedError, h)"

definition ParameterServerHandler_update ::
  "'a ParameterServerHandler_scheme \<Rightarrow> tensor list \<Rightarrow> 'a ParameterServerHandler_scheme result" where
  "ParameterServerHandler_update h model_list = Inl (NotImplementedError, h)"

subsection \<open>The synchronous handler\<close>

record SyncParameterServerHandler = ParameterServerHandler +
  client_num :: int
  select_ratio :: real
  round_num :: int
  client_buffer_cache :: "tensor option list"
  buffer_cnt :: int
  update_flag :: bool

text \<open>
  The constructor. \<open>select_ratio\<close> is a \<^verbatim>\<open>float\<close>, so line 69 converts \<open>client_num\<close> to a
  double, multiplies in doubles and truncates the product.
\<close>

definition SyncParameterServerHandler_init ::
  "tensor \<Rightarrow> int \<Rightarrow> bool \<Rightarrow> real \<Rightarrow> SyncParameterServerHandler" where
  "SyncParameterServerHandler_init m n c ratio =
     \<lparr>model = m, buffer = ravel_model_params m, cuda = c,
      client_num = n, select_ratio = ratio, round_num = py_int (double_of (ratio * double_of (real_of_int n))),
      client_buffer_cache = replicate (nat n) None, buffer_cnt = 0, update_flag = False\<rparr>"

text \<open>
  The branch taken when \<open>buffer_cnt\<close> has reached \<open>round_num\<close>: the mean of the stacked cache is
  written over the buffer, the buffer is loaded into the model, counter and cache are reset and
  the flag is raised. An exception of \<^verbatim>\<open>torch.stack\<close> or of the assignment leaves the handler
  as it is at that line.
\<close>

definition aggregate :: "SyncParameterServerHandler \<Rightarrow> SyncParameterServerHandler result" where
  "aggregate h =
     (case torch_stack (client_buffer_cache h) of
        Inl e \<Rightarrow> Inl (e, h)
      | Inr rows \<Rightarrow>
          (case assign_slice (buffer h) (torch_mean_dim0 rows) of
             Inl e \<Rightarrow> Inl (e, h)
           | Inr b \<Rightarrow>
               Inr (h\<lparr>buffer := b,
                       model := unravel_model_params (model h) b,
                       buffer_cnt := 0,
                       client_buffer_cache := replicate (nat (client_num h)) None,
                       update_flag := True\<rparr>)))"

definition receive ::
  "SyncParameterServerHandler \<Rightarrow> int \<Rightarrow> MessageCode \<Rightarrow> tensor \<Rightarrow>
     SyncParameterServerHandler result" where
  "receive h sender message_code payload =
     (if message_code = ParameterUpdate then
        (case py_index (length (client_buffer_cache h)) (sender - 1) of
           None \<Rightarrow> Inl (IndexError, h)
         | Some buffer_index \<Rightarrow>
             if client_buffer_cache h ! buffer_index \<noteq> None then Inr h
             else
               let h1 = h\<lparr>buffer_cnt := buffer_cnt h + 1\<rparr>;
                   h2 = h1\<lparr>client_buffer_cache :=
                             (client_buffer_cache h1)[buffer_index := Some payload]\<rparr>
               in if buffer_cnt h2 = round_num h2 then aggregate h2 else Inr h2)
      else Inl (Exception ''Undefined message type!'', h))"

definition is_updated :: "SyncParameterServerHandler \<Rightarrow> bool" where
  "is_updated h = update_flag h"

definition start_round :: "SyncParameterServerHandler \<Rightarrow> SyncParameterServerHandler" where
  "start_round h = h\<lparr>update_flag := False\<rparr>"

text \<open>
  The server's receive loop hands the handler one message at a time. \<open>receive_all\<close> delivers a
  list of \<open>ParameterUpdate\<close> messages \<open>(sender, payload)\<close> in list order and stops at the first
  exception, as the loop's process does.
\<close>

fun receive_all ::
  "SyncParameterServerHandler \<Rightarrow> (int \<times> tensor) list \<Rightarrow> SyncParameterServerHandler result" where
  "receive_all h [] = Inr h"
| "receive_all h (m # ms) =
     (case receive h (fst m) ParameterUpdate (snd m) of
        Inl e \<Rightarrow> Inl e
      | Inr h' \<Rightarrow> receive_all h' ms)"

subsection \<open>The asynchronous handler\<close>

text \<open>
  Arithmetic on one-dimensional tensors: a scalar times a tensor, and the sum of two tensors,
  where a tensor of size one is broadcast and any other pair of different sizes is a
  \<^verbatim>\<open>RuntimeError\<close>.
\<close>

definition scale :: "real \<Rightarrow> tensor \<Rightarrow> tensor" where
  "scale c t = map (\<lambda>x. c * x) t"

definition torch_add :: "tensor \<Rightarrow> tensor \<Rightarrow> error + tensor" where
  "torch_add a b =
     (if length a = length b then Inr (map2 (+) a b)
      else if length b = 1 then Inr (map (\<lambda>x. x + hd b) a)
      else if length a = 1 then Inr (map (\<lambda>y. hd a + y) b)
      else Inl RuntimeError)"

text \<open>
  \<open>sent\<close> is not an attribute of the class: it records, in order, the calls of
  \<^verbatim>\<open>send_message(code, payload, dst)\<close> the handler has made.
\<close>

record AsyncParameterServerHandler = ParameterServerHandler +
  async_client_buffer_cache :: "tensor list"
  alpha :: real
  decay :: real
  sent :: "(MessageCode \<times> tensor \<times> int) list"

definition AsyncParameterServerHandler_init :: "tensor \<Rightarrow> bool \<Rightarrow> AsyncParameterServerHandler" where
  "AsyncParameterServerHandler_init m c =
     \<lparr>model = m, buffer = ravel_model_params m, cuda = c,
      async_client_buffer_cache = [], alpha = 0.5, decay = 0.9, sent = []\<rparr>"

definition update ::
  "AsyncParameterServerHandler \<Rightarrow> tensor list \<Rightarrow> AsyncParameterServerHandler result" where
  "update h model_list =
     (case model_list of
        [] \<Rightarrow> Inl (IndexError, h)
      | params # _ \<Rightarrow>
          (case torch_add (scale (1 - alpha h) (buffer h)) (scale (alpha h) params) of
             Inl e \<Rightarrow> Inl (e, h)
           | Inr t \<Rightarrow>
               (case assign_slice (buffer h) t of
                  Inl e \<Rightarrow> Inl (e, h)
                | Inr b \<Rightarrow> Inr (h\<lparr>buffer := b, model := unravel_model_params (model h) b\<rparr>))))"

definition async_receive ::
  "AsyncParameterServerHandler \<Rightarrow> int \<Rightarrow> MessageCode \<Rightarrow> tensor \<Rightarrow>
     AsyncParameterServerHandler result" where
  "async_receive h sender message_code parameter =
     (if message_code = ParameterUpdate then update h [parameter]
      else if message_code = ParameterRequest then
        Inr (h\<lparr>sent := sent h @ [(ParameterUpdate, ravel_model_params (model h), sender)]\<rparr>)
      else if message_code = GradientUpdate then Inl (NotImplementedError, h)
      else if message_code = Exit then Inr h
      else Inr h)"

subsection \<open>The client topology\<close>

text \<open>
  The client keeps a backend handler, of which the code uses the attribute \<^verbatim>\<open>buffer\<close> and
  the method \<^verbatim>\<open>train\<close>. The local trainer is external: it is the parameter \<open>train\<close> below,
  the function from the backend's buffer before \<^verbatim>\<open>train(epochs=2)\<close> to its buffer after.
  \<open>client_sent\<close> records the calls of \<^verbatim>\<open>send_message\<close>, as \<open>sent\<close> does for the server.
\<close>

record ClientSyncTop =
  backend_buffer :: tensor
  rank :: int
  client_sent :: "(MessageCode \<times> tensor \<times> int) list"

text \<open>The abstract class \<^verbatim>\<open>ClientCommunicationTopology\<close>: every method only raises.\<close>

definition ClientCommunicationTopology_run :: "ClientSyncTop \<Rightarrow> ClientSyncTop result" where
  "ClientCommunicationTopology_run c = Inl (NotImplementedError, c)"

definition ClientCommunicationTopology_receive ::
  "ClientSyncTop \<Rightarrow> int \<Rightarrow> MessageCode \<Rightarrow> tensor \<Rightarrow> ClientSyncTop result" where
  "ClientCommunicationTopology_receive c sender message_code payload =
     Inl (NotImplementedError, c)"

definition ClientCommunicationTopology_synchronise ::
  "ClientSyncTop \<Rightarrow> tensor \<Rightarrow> ClientSyncTop result" where
  "ClientCommunicationTopology_synchronise c payload = Inl (NotImplementedError, c)"

text \<open>\<^verbatim>\<open>ClientSyncTop.receive\<close>: the payload becomes the backend's buffer, then the backend trains.\<close>

definition ClientSyncTop_receive ::
  "(tensor \<Rightarrow> tensor) \<Rightarrow> ClientSyncTop \<Rightarrow> int \<Rightarrow> MessageCode \<Rightarrow> tensor \<Rightarrow>
     ClientSyncTop result" where
  "ClientSyncTop_receive train c sender message_code payload =
     (let c1 = c\<lparr>backend_buffer := payload\<rparr>
      in Inr (c1\<lparr>backend_buffer := train (backend_buffer c1)\<rparr>))"

text \<open>
  \<^verbatim>\<open>ClientSyncTop.synchronize\<close> calls \<^verbatim>\<open>send_message(MessageCode.ParameterUpdate, buffer)\<close>.
  Modelled from the spec: \<^verbatim>\<open>send_message\<close> is not part of the sources; without a destination
  it sends to the server, rank 0.
\<close>

definition synchronize :: "ClientSyncTop \<Rightarrow> tensor \<Rightarrow> ClientSyncTop result" where
  "synchronize c buf = Inr (c\<lparr>client_sent := client_sent c @ [(ParameterUpdate, buf, 0)]\<rparr>)"

text \<open>
  \<^verbatim>\<open>ClientSyncTop\<close> defines \<^verbatim>\<open>synchronize\<close> and no method named \<^verbatim>\<open>synchronise\<close>, so
  \<^verbatim>\<open>self.synchronise\<close> is the inherited method of the abstract class.
\<close>

definition synchronise :: "ClientSyncTop \<Rightarrow> tensor \<Rightarrow> ClientSyncTop result" where
  "synchronise c payload = ClientCommunicationTopology_synchronise c payload"

text \<open>
  The loop of \<^verbatim>\<open>ClientSyncTop.run\<close>, over the messages the channel delivers from the server,
  each already decoded into sender, message code and parameter. The loop ends when the process
  exits on \<open>Exit\<close> or an exception leaves it; when the messages are used up,
  \<^verbatim>\<open>recv_message\<close> blocks.
\<close>

datatype run_result =
  Exited ClientSyncTop
| Raised error ClientSyncTop
| Blocked ClientSyncTop

fun run ::
  "(tensor \<Rightarrow> tensor) \<Rightarrow> ClientSyncTop \<Rightarrow> (int \<times> MessageCode \<times> tensor) list \<Rightarrow> run_result" where
  "run train c [] = Blocked c"
| "run train c ((sender, message_code, parameter) # rest) =
     (if message_code = Exit then Exited c
      else
        (case ClientSyncTop_receive train c sender message_code parameter of
           Inl (e, c') \<Rightarrow> Raised e c'
         | Inr c1 \<Rightarrow>
             (case synchronise c1 (backend_buffer c1) of
                Inl (e, c') \<Rightarrow> Raised e c'
              | Inr c2 \<Rightarrow> run train c2 rest)))"

subsection \<open>Auxiliary notions for the statements\<close>

text \<open>
  \<open>store m cache\<close> is the cache after line 107 has stored the payload of the message
  \<open>m = (sender, payload)\<close> of a client rank \<open>sender \<ge> 1\<close> in slot \<open>sender - 1\<close>.
\<close>

definition store :: "int \<times> tensor \<Rightarrow> tensor option list \<Rightarrow> tensor option list" where
  "store m cache = cache[nat (fst m - 1) := Some (snd m)]"

text \<open>
  \<open>fresh_for h ms\<close>: the messages \<open>ms\<close> come from distinct client ranks of the federation, and
  the handler \<open>h\<close> holds no contribution of any of these ranks.
\<close>

definition fresh_for :: "SyncParameterServerHandler \<Rightarrow> (int \<times> tensor) list \<Rightarrow> bool" where
  "fresh_for h ms =
     (list_all (\<lambda>m. 1 \<le> fst m \<and> fst m \<le> int (length (client_buffer_cache h)) \<and>
                    client_buffer_cache h ! nat (fst m - 1) = None) ms \<and>
      distinct (map fst ms))"

section \<open>Properties\<close>

subsection \<open>Rounding to doubles\<close>

text \<open>
  An integer of magnitude up to \<open>2^53\<close> is a double, so rounding leaves it as it is. The last
  lemma is the product of the double nearest to 0.6 and 5: the exact product lies below 3, the
  double product is 3.
\<close>

lemma round_half_even_of_int: "round_half_even (of_int k) = k"
  by (simp add: round_half_even_def)

lemma double_of_exact:
  assumes "x / 2 powr (of_int \<lfloor>log 2 \<bar>x\<bar>\<rfloor> - 52) = of_int j"
  shows "double_of x = x"
proof (cases "x = 0")
  case True then show ?thesis by (simp add: double_of_def)
next
  case False
  let ?u = "2 powr (of_int \<lfloor>log 2 \<bar>x\<bar>\<rfloor> - 52)"
  have u: "?u \<noteq> 0" by simp
  have "double_of x = of_int (round_half_even (x / ?u)) * ?u"
    using False by (simp add: double_of_def Let_def)
  also have "\<dots> = of_int j * ?u" by (simp only: assms round_half_even_of_int)
  also have "\<dots> = x" using assms u by (metis nonzero_divide_eq_eq)
  finally show ?thesis .
qed

lemma double_of_int:
  assumes "x \<in> \<int>" "\<bar>x\<bar> \<le> 2 ^ 53"
  shows "double_of x = x"
proof (cases "x = 0")
  case True then show ?thesis by (simp add: double_of_def)
next
  case False
  from assms(1) obtain k where k: "x = of_int k" by (auto elim: Ints_cases)
  with False have "k \<noteq> 0" by auto
  then have x1: "1 \<le> \<bar>x\<bar>" using k by (simp flip: of_int_abs)
  define e where "e = \<lfloor>log 2 \<bar>x\<bar>\<rfloor>"
  have l53: "log 2 ((2::real) ^ 53) = 53" by (subst log_pow_cancel) simp_all
  have "log 2 \<bar>x\<bar> \<le> log 2 (2 ^ 53)" using x1 assms(2) by (subst log_le_cancel_iff) auto
  then have "log 2 \<bar>x\<bar> \<le> 53" by (simp only: l53)
  then have e53: "e \<le> 53" by (simp add: e_def floor_le_iff)
  have goal: "double_of x = x" if "x / 2 powr (of_int e - 52) = of_int j" for j
    using that unfolding e_def by (rule double_of_exact)
  show ?thesis
  proof (cases "e \<le> 52")
    case True
    define n where "n = nat (52 - e)"
    have "of_int e - 52 = - real n" using True by (simp add: n_def)
    then have "(2::real) powr (of_int e - 52) = 1 / 2 ^ n"
      by (simp add: powr_minus powr_realpow divide_inverse)
    then have "x / 2 powr (of_int e - 52) = of_int (k * 2 ^ n)" using k by simp
    then show ?thesis by (rule goal)
  next
    case False
    with e53 have e: "e = 53" by linarith
    have "of_int e \<le> log 2 \<bar>x\<bar>" unfolding e_def by (rule of_int_floor_le)
    with e have "53 \<le> log 2 \<bar>x\<bar>" by simp
    then have "log 2 ((2::real) ^ 53) \<le> log 2 \<bar>x\<bar>" by (simp only: l53)
    then have "(2::real) ^ 53 \<le> \<bar>x\<bar>" using x1 by (subst (asm) log_le_cancel_iff) auto
    with assms(2) have ax: "\<bar>x\<bar> = 2 ^ 53" by linarith
    have "(2::real) powr (of_int e - 52) = 2" using e by simp
    moreover have "x / 2 = of_int (if 0 \<le> k then 2 ^ 52 else - (2 ^ 52))"
      using ax k by (auto simp: abs_if split: if_splits)
    ultimately have "x / 2 powr (of_int e - 52) = of_int (if 0 \<le> k then 2 ^ 52 else - (2 ^ 52))"
      by simp
    then show ?thesis by (rule goal)
  qed
qed


lemma floor_log2_eq:
  assumes "2 ^ n \<le> x" "x < 2 ^ Suc n"
  shows "\<lfloor>log 2 x\<rfloor> = int n"
proof -
  have x0: "0 < x" using assms(1) by (meson less_le_trans zero_less_numeral zero_less_power)
  have ln: "log 2 ((2::real) ^ k) = real k" for k by (subst log_pow_cancel) simp_all
  have "log 2 ((2::real) ^ n) \<le> log 2 x" using assms(1) x0 by (subst log_le_cancel_iff) auto
  then have 1: "real n \<le> log 2 x" by (simp only: ln)
  have "log 2 x < log 2 ((2::real) ^ Suc n)" using assms(2) x0 by (subst log_less_cancel_iff) auto
  then have "log 2 x < real (Suc n)" by (simp only: ln)
  then have 2: "log 2 x < real n + 1" by simp
  from 1 2 have "of_int (int n) \<le> log 2 x \<and> log 2 x < of_int (int n) + 1" by simp
  then show ?thesis by (simp only: floor_eq_iff)
qed

lemma double_product_example:
  "double_of (5404319552844595 / 2 ^ 53 * double_of (real_of_int 5)) = 3"
proof -
  let ?x = "27021597764222975 / 9007199254740992 :: real"
  have 5: "double_of (real_of_int 5) = 5" by (simp add: double_of_int)
  have x: "5404319552844595 / 2 ^ 53 * (5::real) = ?x" by simp
  have "\<lfloor>log 2 ?x\<rfloor> = int 1" by (rule floor_log2_eq) simp_all
  then have e: "\<lfloor>log 2 \<bar>?x\<bar>\<rfloor> = 1" by simp
  have "(2::real) powr (of_int 1 - 52) = 2 powr (- 51)" by simp
  also have "\<dots> = 1 / 2 powr 51" by (rule powr_minus_divide)
  also have "\<dots> = 1 / 2251799813685248" by simp
  finally have u: "(2::real) powr (of_int 1 - 52) = 1 / 2251799813685248" .
  have q: "?x / (1 / 2251799813685248) = 27021597764222975 / 4" by simp
  have r: "round_half_even (27021597764222975 / 4) = 6755399441055744"
    by (simp add: round_half_even_def)
  have "double_of ?x = of_int (round_half_even (?x / 2 powr (of_int \<lfloor>log 2 \<bar>?x\<bar>\<rfloor> - 52))) *
      2 powr (of_int \<lfloor>log 2 \<bar>?x\<bar>\<rfloor> - 52)"
    by (simp add: double_of_def Let_def)
  also have "\<dots> = of_int (round_half_even (27021597764222975 / 4)) * (1 / 2251799813685248)"
    by (simp only: e u q)
  also have "\<dots> = 3" by (simp add: r)
  finally show ?thesis by (simp only: 5 x)
qed

lemma round_num_double_product:
  "round_num (SyncParameterServerHandler_init m 5 c (5404319552844595 / 2 ^ 53)) = 3"
  by (simp only: SyncParameterServerHandler_init_def SyncParameterServerHandler.select_convs
      double_product_example) (simp add: py_int_def)

subsection \<open>Evaluation and basic facts\<close>

lemmas sync_eval =
  SyncParameterServerHandler_init_def receive_def py_int_def py_index_def aggregate_def
  torch_stack_def torch_mean_dim0_def assign_slice_def ravel_model_params_def
  unravel_model_params_def Let_def numeral_eq_Suc double_of_int

lemmas async_eval =
  AsyncParameterServerHandler_init_def async_receive_def update_def torch_add_def scale_def
  assign_slice_def ravel_model_params_def unravel_model_params_def

lemma py_index_in_range: "py_index n i = Some k \<Longrightarrow> k < n"
  by (auto simp: py_index_def split: if_splits)

lemma py_index_rank:
  "1 \<le> s \<Longrightarrow> s \<le> int n \<Longrightarrow> py_index n (s - 1) = Some (nat (s - 1))"
  by (simp add: py_index_def)

lemma receive_accept:
  assumes "1 \<le> fst m" "fst m \<le> int (length (client_buffer_cache h))"
    and "client_buffer_cache h ! nat (fst m - 1) = None"
    and "buffer_cnt h + 1 \<noteq> round_num h"
  shows "receive h (fst m) ParameterUpdate (snd m) =
    Inr (h\<lparr>buffer_cnt := buffer_cnt h + 1,
           client_buffer_cache := store m (client_buffer_cache h)\<rparr>)"
  using assms by (simp add: receive_def py_index_rank store_def Let_def)

lemma receive_complete:
  assumes "1 \<le> fst m" "fst m \<le> int (length (client_buffer_cache h))"
    and "client_buffer_cache h ! nat (fst m - 1) = None"
    and "buffer_cnt h + 1 = round_num h"
  shows "receive h (fst m) ParameterUpdate (snd m) =
    aggregate (h\<lparr>buffer_cnt := round_num h,
                  client_buffer_cache := store m (client_buffer_cache h)\<rparr>)"
  using assms by (simp add: receive_def py_index_rank store_def Let_def)

subsection \<open>Averaging at the quorum\<close>

text \<open>
  C1. With quorum \<open>Q = floor(selectRatio * clientCount)\<close>, after \<open>Q\<close> distinct ranks have
  contributed the buffer is the mean of the \<open>Q\<close> payloads, for every \<open>selectRatio\<close> in \<open>(0,1]\<close>.
  The code does not do this when \<open>Q < clientCount\<close>: the cache then still holds \<^verbatim>\<open>None\<close>
  in the slots of the ranks that did not contribute, and \<^verbatim>\<open>torch.stack\<close> raises. Here, two
  clients and ratio one half (quorum 1): the first contribution raises \<^verbatim>\<open>TypeError\<close>, the
  buffer keeps its old value, the flag stays down and the counter stays at the quorum.
\<close>

theorem partial_quorum_raises:
  "receive (SyncParameterServerHandler_init [0, 0] 2 False (1 / 2)) 1 ParameterUpdate [1, 2] =
     Inl (TypeError,
       \<lparr>model = [0, 0], buffer = [0, 0], cuda = False, client_num = 2, select_ratio = 1 / 2,
        round_num = 1, client_buffer_cache = [Some [1, 2], None], buffer_cnt = 1,
        update_flag = False\<rparr>)"
  by (simp add: sync_eval)

subsection \<open>Duplicates\<close>

text \<open>
  C2. A \<open>ParameterUpdate\<close> of a rank whose slot is occupied is dropped: the handler is returned
  as it was (cache, counter, buffer, model and flag). When a first contribution of a rank is
  accepted without completing the round, a second one of the same rank is such a duplicate, so
  the counter has grown by exactly one over the pair.
\<close>

theorem duplicate_dropped:
  assumes "py_index (length (client_buffer_cache h)) (sender - 1) = Some i"
  shows "(client_buffer_cache h ! i \<noteq> None \<longrightarrow>
            receive h sender ParameterUpdate p2 = Inr h) \<and>
         (client_buffer_cache h ! i = None \<and> buffer_cnt h + 1 \<noteq> round_num h \<longrightarrow>
            (let h1 = h\<lparr>buffer_cnt := buffer_cnt h + 1,
                        client_buffer_cache := (client_buffer_cache h)[i := Some p1]\<rparr>
             in receive h sender ParameterUpdate p1 = Inr h1 \<and>
                receive h1 sender ParameterUpdate p2 = Inr h1 \<and>
                buffer_cnt h1 = buffer_cnt h + 1))"
  using assms py_index_in_range[OF assms]
  by (simp add: receive_def Let_def)

theorem duplicate_dropped_witness:
  "py_index (length (client_buffer_cache (SyncParameterServerHandler_init [0, 0] 2 False 1)))
      (1 - 1) = Some 0 \<and>
   client_buffer_cache (SyncParameterServerHandler_init [0, 0] 2 False 1) ! 0 = None \<and>
   buffer_cnt (SyncParameterServerHandler_init [0, 0] 2 False 1) + 1 \<noteq>
     round_num (SyncParameterServerHandler_init [0, 0] 2 False 1) \<and>
   receive (SyncParameterServerHandler_init [0, 0] 2 False 1) 1 ParameterUpdate [1, 2] =
     Inr \<lparr>model = [0, 0], buffer = [0, 0], cuda = False, client_num = 2, select_ratio = 1,
          round_num = 2, client_buffer_cache = [Some [1, 2], None], buffer_cnt = 1,
          update_flag = False\<rparr> \<and>
   receive \<lparr>model = [0, 0], buffer = [0, 0], cuda = False, client_num = 2, select_ratio = 1,
          round_num = 2, client_buffer_cache = [Some [1, 2], None], buffer_cnt = 1,
          update_flag = False\<rparr> 1 ParameterUpdate [5, 6] =
     Inr \<lparr>model = [0, 0], buffer = [0, 0], cuda = False, client_num = 2, select_ratio = 1,
          round_num = 2, client_buffer_cache = [Some [1, 2], None], buffer_cnt = 1,
          update_flag = False\<rparr>"
proof -
  let ?h = "SyncParameterServerHandler_init [0, 0] 2 False 1"
  have i: "py_index (length (client_buffer_cache ?h)) (1 - 1) = Some 0"
    by (simp add: SyncParameterServerHandler_init_def py_index_def)
  show ?thesis
    using i duplicate_dropped[OF i, of "[5, 6]" "[1, 2]"]
    by (simp add: SyncParameterServerHandler_init_def py_int_def double_of_int ravel_model_params_def
        Let_def numeral_eq_Suc)
qed

subsection \<open>The client's loop\<close>

text \<open>
  C3. For a message that is not \<open>Exit\<close> the client installs the payload, trains and sends a
  \<open>ParameterUpdate\<close> back through the synchronize step, without an unimplemented-operation
  error. The code does not: \<^verbatim>\<open>run\<close> calls \<^verbatim>\<open>self.synchronise\<close>, the method of the abstract
  class, while the class overrides under the name \<^verbatim>\<open>synchronize\<close>. After training, the loop
  is left by \<^verbatim>\<open>NotImplementedError\<close> and nothing has been sent.
\<close>

theorem run_raises_not_implemented:
  "run train c ((0, ParameterUpdate, [1, 2]) # rest) =
     Raised NotImplementedError (c\<lparr>backend_buffer := train [1, 2]\<rparr>)"
  by (simp add: ClientSyncTop_receive_def synchronise_def
      ClientCommunicationTopology_synchronise_def)

subsection \<open>The end of a round\<close>

text \<open>
  C4. After the quorum-th accepted contribution the flag is up, the cache is empty and the
  counter is 0. The code does not reach this state when the quorum is smaller than the number
  of clients (the defect of C1): with four clients and ratio one half, the second contribution
  raises \<^verbatim>\<open>TypeError\<close>; the flag is down, the cache holds both payloads and the counter is 2.
\<close>

theorem partial_quorum_no_reset:
  "receive_all (SyncParameterServerHandler_init [0, 0] 4 False (1 / 2))
      [(1, [1, 2]), (2, [3, 4])] =
     Inl (TypeError,
       \<lparr>model = [0, 0], buffer = [0, 0], cuda = False, client_num = 4, select_ratio = 1 / 2,
        round_num = 2, client_buffer_cache = [Some [1, 2], Some [3, 4], None, None],
        buffer_cnt = 2, update_flag = False\<rparr>)"
  by (simp add: sync_eval)

subsection \<open>The asynchronous merge\<close>

lemma map2_scale:
  "map2 (+) (scale a xs) (scale b ys) = map2 (\<lambda>x y. a * x + b * y) xs ys"
  by (simp add: scale_def zip_map1 zip_map2 split_def comp_def)

text \<open>
  C5. Every \<open>ParameterUpdate\<close> the asynchronous handler receives, whatever the sender and the
  state, replaces the buffer by \<open>(1 - alpha) * buffer + alpha * payload\<close>, elementwise, and loads
  it into the model (payload and buffer being parameter vectors of one length). The handler
  is constructed with \<open>alpha = 0.5\<close>: from the buffer \<open>[0, 0]\<close> the update \<open>[2, 4]\<close> gives
  \<open>[1, 2]\<close>, and a further update \<open>[2, 0]\<close> of the same rank gives \<open>[1.5, 1]\<close>.
\<close>

theorem async_merge:
  "(length parameter = length (buffer h) \<longrightarrow>
      async_receive h sender ParameterUpdate parameter =
        Inr (h\<lparr>buffer := map2 (\<lambda>b x. (1 - alpha h) * b + alpha h * x) (buffer h) parameter,
               model := map2 (\<lambda>b x. (1 - alpha h) * b + alpha h * x) (buffer h) parameter\<rparr>)) \<and>
   alpha (AsyncParameterServerHandler_init [0, 0] c) = 1 / 2 \<and>
   async_receive (AsyncParameterServerHandler_init [0, 0] c) 1 ParameterUpdate [2, 4] =
     Inr ((AsyncParameterServerHandler_init [0, 0] c)\<lparr>buffer := [1, 2], model := [1, 2]\<rparr>) \<and>
   async_receive
       ((AsyncParameterServerHandler_init [0, 0] c)\<lparr>buffer := [1, 2], model := [1, 2]\<rparr>)
       1 ParameterUpdate [2, 0] =
     Inr ((AsyncParameterServerHandler_init [0, 0] c)
            \<lparr>buffer := [3 / 2, 1], model := [3 / 2, 1]\<rparr>)"
proof -
  have "async_receive h sender ParameterUpdate parameter =
        Inr (h\<lparr>buffer := map2 (\<lambda>b x. (1 - alpha h) * b + alpha h * x) (buffer h) parameter,
               model := map2 (\<lambda>b x. (1 - alpha h) * b + alpha h * x) (buffer h) parameter\<rparr>)"
    if "length parameter = length (buffer h)"
    using that
    by (simp add: async_receive_def update_def torch_add_def assign_slice_def map2_scale
        unravel_model_params_def) (simp add: scale_def)
  moreover have "alpha (AsyncParameterServerHandler_init [0, 0] c) = 1 / 2"
    by (simp add: AsyncParameterServerHandler_init_def)
  moreover have
    "async_receive (AsyncParameterServerHandler_init [0, 0] c) 1 ParameterUpdate [2, 4] =
     Inr ((AsyncParameterServerHandler_init [0, 0] c)\<lparr>buffer := [1, 2], model := [1, 2]\<rparr>)"
    by (simp add: async_eval)
  moreover have
    "async_receive
       ((AsyncParameterServerHandler_init [0, 0] c)\<lparr>buffer := [1, 2], model := [1, 2]\<rparr>)
       1 ParameterUpdate [2, 0] =
     Inr ((AsyncParameterServerHandler_init [0, 0] c)
            \<lparr>buffer := [3 / 2, 1], model := [3 / 2, 1]\<rparr>)"
    by (simp add: async_eval)
  ultimately show ?thesis by blast
qed

theorem async_merge_witness:
  "length [4, 8 :: real] =
     length (buffer \<lparr>model = [0, 4], buffer = [0, 4], cuda = False,
       async_client_buffer_cache = [], alpha = 1 / 4, decay = 9 / 10, sent = []\<rparr>) \<and>
   async_receive \<lparr>model = [0, 4], buffer = [0, 4], cuda = False,
       async_client_buffer_cache = [], alpha = 1 / 4, decay = 9 / 10, sent = []\<rparr>
       3 ParameterUpdate [4, 8] =
     Inr \<lparr>model = [1, 5], buffer = [1, 5], cuda = False,
       async_client_buffer_cache = [], alpha = 1 / 4, decay = 9 / 10, sent = []\<rparr>"
  using async_merge[of "[4, 8]" "\<lparr>model = [0, 4], buffer = [0, 4], cuda = False,
      async_client_buffer_cache = [], alpha = 1 / 4, decay = 9 / 10, sent = []\<rparr>" 3]
  by simp

subsection \<open>Independence of the order of arrival\<close>

lemma fresh_for_Cons:
  assumes "fresh_for h (m # ms)"
  shows "fresh_for
    (h\<lparr>buffer_cnt := k, client_buffer_cache := store m (client_buffer_cache h)\<rparr>) ms"
proof -
  have d: "fst m \<notin> fst ` set ms" "distinct (map fst ms)" and m1: "1 \<le> fst m"
    using assms by (auto simp: fresh_for_def)
  have "1 \<le> fst x \<and> fst x \<le> int (length (store m (client_buffer_cache h))) \<and>
        store m (client_buffer_cache h) ! nat (fst x - 1) = None" if "x \<in> set ms" for x
  proof -
    from that assms have x: "1 \<le> fst x" "fst x \<le> int (length (client_buffer_cache h))"
      "client_buffer_cache h ! nat (fst x - 1) = None"
      by (auto simp: fresh_for_def list_all_iff)
    from that d have "fst x \<noteq> fst m" by (metis imageI)
    with x m1 have "nat (fst x - 1) \<noteq> nat (fst m - 1)" by linarith
    with x show ?thesis by (simp add: store_def)
  qed
  with d show ?thesis by (simp add: fresh_for_def list_all_iff)
qed

text \<open>
  The delivery that brings the counter to \<open>round_num\<close> runs the aggregation on the cache that
  holds all the messages; the deliveries before it only fill the cache.
\<close>

lemma receive_all_quorum:
  assumes "fresh_for h ms" "ms \<noteq> []" "buffer_cnt h + int (length ms) = round_num h"
  shows "receive_all h ms =
    aggregate (h\<lparr>buffer_cnt := round_num h,
                  client_buffer_cache := fold store ms (client_buffer_cache h)\<rparr>)"
  using assms
proof (induction ms arbitrary: h)
  case Nil
  then show ?case by simp
next
  case (Cons m ms)
  from Cons.prems(1) have m: "1 \<le> fst m" "fst m \<le> int (length (client_buffer_cache h))"
      "client_buffer_cache h ! nat (fst m - 1) = None"
    by (simp_all add: fresh_for_def)
  show ?case
  proof (cases "ms = []")
    case True
    with Cons.prems(3) have "buffer_cnt h + 1 = round_num h" by simp
    from receive_complete[OF m this] True show ?thesis
      by (simp split: sum.splits)
  next
    case False
    let ?h' = "h\<lparr>buffer_cnt := buffer_cnt h + 1,
           client_buffer_cache := store m (client_buffer_cache h)\<rparr>"
    from False Cons.prems(3) have "buffer_cnt h + 1 \<noteq> round_num h"
      by (cases ms) auto
    from receive_accept[OF m this]
    have r: "receive h (fst m) ParameterUpdate (snd m) = Inr ?h'" .
    have f: "fresh_for ?h' ms" by (rule fresh_for_Cons[OF Cons.prems(1)])
    have c: "buffer_cnt ?h' + int (length ms) = round_num ?h'"
      using Cons.prems(3) by simp
    from Cons.IH[OF f False c] r show ?thesis by simp
  qed
qed

lemma store_commute:
  assumes "fst x \<noteq> fst y" "1 \<le> fst x" "1 \<le> fst y"
  shows "store x \<circ> store y = store y \<circ> store x"
proof -
  from assms have "nat (fst x - 1) \<noteq> nat (fst y - 1)" by linarith
  then show ?thesis by (auto simp: store_def fun_eq_iff list_update_swap)
qed

lemma fold_store_permuted:
  assumes "distinct (map fst ms)" "list_all (\<lambda>m. 1 \<le> fst m) ms" "mset ms = mset ms'"
  shows "fold store ms = fold store ms'"
proof (rule fold_multiset_equiv)
  fix x y assume xy: "x \<in> set ms" "y \<in> set ms"
  show "store x \<circ> store y = store y \<circ> store x"
  proof (cases "x = y")
    case True then show ?thesis by simp
  next
    case False
    with xy assms(1) have "fst x \<noteq> fst y" by (metis distinct_map inj_onD)
    moreover from xy assms(2) have "1 \<le> fst x" "1 \<le> fst y" by (auto simp: list_all_iff)
    ultimately show ?thesis by (rule store_commute)
  qed
qed (fact assms(3))

lemma fresh_for_permuted:
  assumes "fresh_for h ms" "mset ms = mset ms'"
  shows "fresh_for h ms'"
proof -
  from assms(2) have "set ms = set ms'" by (rule mset_eq_setD)
  moreover from assms(2) have "mset (map fst ms) = mset (map fst ms')" by simp
  then have "distinct (map fst ms) = distinct (map fst ms')" by (rule mset_eq_imp_distinct_iff)
  ultimately show ?thesis using assms(1) by (simp add: fresh_for_def list_all_iff)
qed

lemma receive_all_permuted:
  assumes "fresh_for h ms" "buffer_cnt h = 0" "int (length ms) = round_num h"
    and "mset ms' = mset ms"
  shows "receive_all h ms' = receive_all h ms"
proof (cases "ms = []")
  case True
  with assms(4) show ?thesis by simp
next
  case False
  from assms(4) have l: "length ms' = length ms" by (rule mset_eq_length)
  with False have ne: "ms' \<noteq> []" by auto
  have f': "fresh_for h ms'" using assms(1) assms(4)[symmetric] by (rule fresh_for_permuted)
  have "fold store ms = fold store ms'"
    using assms(1) assms(4) by (intro fold_store_permuted) (auto simp: fresh_for_def list_all_iff)
  moreover have "receive_all h ms =
    aggregate (h\<lparr>buffer_cnt := round_num h,
                  client_buffer_cache := fold store ms (client_buffer_cache h)\<rparr>)"
    using assms by (intro receive_all_quorum False) simp_all
  moreover have "receive_all h ms' =
    aggregate (h\<lparr>buffer_cnt := round_num h,
                  client_buffer_cache := fold store ms' (client_buffer_cache h)\<rparr>)"
    using assms l f' ne by (intro receive_all_quorum) simp_all
  ultimately show ?thesis by simp
qed

lemma fresh_for_start:
  assumes "client_buffer_cache h = replicate (nat (client_num h)) None"
    and "distinct (map fst ms)"
    and "list_all (\<lambda>m. 1 \<le> fst m \<and> fst m \<le> client_num h) ms"
  shows "fresh_for h ms"
  using assms by (auto simp: fresh_for_def list_all_iff)

subsection \<open>Rounds in which every client takes part\<close>

text \<open>
  When the quorum is the number of clients, the cache is full at the quorum: the aggregation
  succeeds. The lemmas below give its result for messages of distinct client ranks delivered
  in any order from the start of a round: buffer and model hold the elementwise mean of the
  payloads, counter and cache are reset and the flag is up.
\<close>

lemma mset_fold_store:
  assumes "fresh_for h ms"
  shows "mset (fold store ms (client_buffer_cache h)) + replicate_mset (length ms) None =
         mset (client_buffer_cache h) + mset (map (\<lambda>m. Some (snd m)) ms)"
  using assms
proof (induction ms arbitrary: h)
  case Nil
  then show ?case by simp
next
  case (Cons m ms)
  let ?c = "client_buffer_cache h"
  let ?h' = "h\<lparr>buffer_cnt := 0, client_buffer_cache := store m ?c\<rparr>"
  from Cons.prems have m: "nat (fst m - 1) < length ?c" "?c ! nat (fst m - 1) = None"
    by (auto simp: fresh_for_def)
  then have "None \<in> set ?c" by (metis nth_mem)
  then have "None \<in># mset ?c" by simp
  with m have s: "mset (store m ?c) + {#None#} = mset ?c + {#Some (snd m)#}"
    by (simp add: store_def mset_update)
  have "fresh_for ?h' ms" by (rule fresh_for_Cons[OF Cons.prems])
  from Cons.IH[OF this]
  have "mset (fold store ms (store m ?c)) + replicate_mset (length ms) None =
        mset (store m ?c) + mset (map (\<lambda>m. Some (snd m)) ms)" by simp
  then have "mset (fold store ms (store m ?c)) + replicate_mset (length ms) None + {#None#} =
        mset (store m ?c) + {#None#} + mset (map (\<lambda>m. Some (snd m)) ms)" by simp
  with s show ?case by simp
qed

lemma mset_full_cache:
  assumes "fresh_for h ms" "client_buffer_cache h = replicate (length ms) None"
  shows "mset (fold store ms (client_buffer_cache h)) = mset (map (\<lambda>m. Some (snd m)) ms)"
  using mset_fold_store[OF assms(1)] assms(2) by simp

lemma torch_stack_full:
  assumes "mset cache = mset (map Some rows0)" "rows0 \<noteq> []"
    and "list_all (\<lambda>r. length r = d) rows0"
  shows "\<exists>rows. torch_stack cache = Inr rows \<and> mset rows = mset rows0"
proof -
  from assms(1) have "set cache = set (map Some rows0)" by (rule mset_eq_setD)
  then have s: "set cache = Some ` set rows0" by simp
  then have 1: "None \<notin> set cache" by blast
  from assms(1) have "length cache = length (map Some rows0)" by (rule mset_eq_length)
  with assms(2) have 2: "cache \<noteq> []" by auto
  have 3: "length (the t) = d" if "t \<in> set cache" for t
  proof -
    from that s obtain r where "t = Some r" "r \<in> set rows0" by blast
    with assms(3) show ?thesis by (simp add: list_all_iff)
  qed
  from 2 have "hd cache \<in> set cache" by simp
  with 3 have 4: "\<not> (\<exists>t \<in> set cache. length (the t) \<noteq> length (the (hd cache)))" by simp
  have "mset (map the cache) = image_mset the (mset cache)" by simp
  also have "\<dots> = image_mset the (mset (map Some rows0))" by (simp only: assms(1))
  also have "\<dots> = mset rows0" by (simp add: multiset.map_comp comp_def)
  finally have 5: "mset (map the cache) = mset rows0" .
  have "torch_stack cache = Inr (map the cache)"
    unfolding torch_stack_def using 1 2 4 by (simp only: if_False)
  with 5 show ?thesis by blast
qed

lemma torch_mean_dim0_mset:
  assumes "mset rows = mset rows0" "rows0 \<noteq> []" "list_all (\<lambda>r. length r = d) rows0"
  shows "torch_mean_dim0 rows =
     map (\<lambda>j. (\<Sum>r\<leftarrow>rows0. r ! j) / real (length rows0)) [0..<d]"
proof -
  from assms(1) have l: "length rows = length rows0" by (rule mset_eq_length)
  with assms(2) have "rows \<noteq> []" by auto
  then have "hd rows \<in> set rows" by simp
  moreover from assms(1) have "set rows = set rows0" by (rule mset_eq_setD)
  ultimately have "hd rows \<in> set rows0" by simp
  with assms(3) have d: "length (hd rows) = d" by (simp add: list_all_iff)
  have "(\<Sum>r\<leftarrow>rows. r ! j) = (\<Sum>r\<leftarrow>rows0. r ! j)" for j
  proof -
    have "mset (map (\<lambda>r. r ! j) rows) = mset (map (\<lambda>r. r ! j) rows0)"
      using assms(1) by simp
    then have "sum_mset (mset (map (\<lambda>r. r ! j) rows)) = sum_mset (mset (map (\<lambda>r. r ! j) rows0))"
      by (rule arg_cong)
    then show ?thesis by (simp only: sum_mset_sum_list)
  qed
  with l d show ?thesis by (simp add: torch_mean_dim0_def)
qed

lemma full_participation_average:
  assumes "client_buffer_cache h = replicate (nat (client_num h)) None"
    and "buffer_cnt h = 0"
    and "round_num h = client_num h"
    and "distinct (map fst ms)"
    and "list_all (\<lambda>m. 1 \<le> fst m \<and> fst m \<le> client_num h) ms"
    and "list_all (\<lambda>m. length (snd m) = length (buffer h)) ms"
    and "int (length ms) = client_num h"
    and "ms \<noteq> []"
  shows "receive_all h ms =
    Inr (h\<lparr>buffer := map (\<lambda>j. (\<Sum>m\<leftarrow>ms. snd m ! j) / real (length ms)) [0..<length (buffer h)],
           model := map (\<lambda>j. (\<Sum>m\<leftarrow>ms. snd m ! j) / real (length ms)) [0..<length (buffer h)],
           buffer_cnt := 0,
           client_buffer_cache := replicate (nat (client_num h)) None,
           update_flag := True\<rparr>)"
proof -
  let ?avg = "map (\<lambda>j. (\<Sum>m\<leftarrow>ms. snd m ! j) / real (length ms)) [0..<length (buffer h)]"
  let ?C = "fold store ms (client_buffer_cache h)"
  let ?h2 = "h\<lparr>buffer_cnt := round_num h, client_buffer_cache := ?C\<rparr>"
  have f: "fresh_for h ms" using assms(1,4,5) by (rule fresh_for_start)
  have q: "receive_all h ms = aggregate ?h2"
    using f assms(8) assms(2,3,7) by (intro receive_all_quorum) simp_all
  from assms(1,7) have "client_buffer_cache h = replicate (length ms) None" by simp
  with f have "mset ?C = mset (map (\<lambda>m. Some (snd m)) ms)" by (rule mset_full_cache)
  then have c: "mset ?C = mset (map Some (map snd ms))" by (simp add: comp_def)
  have ne: "map snd ms \<noteq> []" using assms(8) by simp
  have len: "list_all (\<lambda>r. length r = length (buffer h)) (map snd ms)"
    using assms(6) by (simp add: list_all_iff)
  from torch_stack_full[OF c ne len] obtain rows
    where rows: "torch_stack ?C = Inr rows" "mset rows = mset (map snd ms)" by blast
  from torch_mean_dim0_mset[OF rows(2) ne len]
  have mean: "torch_mean_dim0 rows = ?avg" by (simp add: comp_def)
  have "assign_slice (buffer h) ?avg = Inr ?avg" by (simp add: assign_slice_def)
  with rows(1) mean have "aggregate ?h2 =
    Inr (?h2\<lparr>buffer := ?avg, model := unravel_model_params (model ?h2) ?avg, buffer_cnt := 0,
           client_buffer_cache := replicate (nat (client_num ?h2)) None, update_flag := True\<rparr>)"
    by (simp add: aggregate_def)
  with q show ?thesis by (simp add: unravel_model_params_def)
qed

text \<open>
  After \<open>start_round\<close> the flag is down and the handler is at the start of a round again: a
  second round of contributions gives the mean of the second round's payloads alone.
\<close>

lemma next_round_independent:
  assumes "client_buffer_cache h = replicate (nat (client_num h)) None"
    and "buffer_cnt h = 0"
    and "round_num h = client_num h"
    and "distinct (map fst ms1)" "distinct (map fst ms2)"
    and "list_all (\<lambda>m. 1 \<le> fst m \<and> fst m \<le> client_num h) ms1"
    and "list_all (\<lambda>m. 1 \<le> fst m \<and> fst m \<le> client_num h) ms2"
    and "list_all (\<lambda>m. length (snd m) = length (buffer h)) ms1"
    and "list_all (\<lambda>m. length (snd m) = length (buffer h)) ms2"
    and "int (length ms1) = client_num h" "int (length ms2) = client_num h"
    and "ms1 \<noteq> []" "ms2 \<noteq> []"
    and "receive_all h ms1 = Inr h1"
  shows "update_flag h1 \<and> buffer_cnt h1 = 0 \<and>
    client_buffer_cache h1 = replicate (nat (client_num h)) None \<and>
    \<not> is_updated (start_round h1) \<and>
    receive_all (start_round h1) ms2 =
      Inr (h\<lparr>buffer := map (\<lambda>j. (\<Sum>m\<leftarrow>ms2. snd m ! j) / real (length ms2))
                         [0..<length (buffer h)],
             model := map (\<lambda>j. (\<Sum>m\<leftarrow>ms2. snd m ! j) / real (length ms2))
                        [0..<length (buffer h)],
             buffer_cnt := 0,
             client_buffer_cache := replicate (nat (client_num h)) None,
             update_flag := True\<rparr>)"
proof -
  let ?avg1 = "map (\<lambda>j. (\<Sum>m\<leftarrow>ms1. snd m ! j) / real (length ms1)) [0..<length (buffer h)]"
  have "receive_all h ms1 =
    Inr (h\<lparr>buffer := ?avg1, model := ?avg1, buffer_cnt := 0,
           client_buffer_cache := replicate (nat (client_num h)) None, update_flag := True\<rparr>)"
    using assms(1,2,3,4,6,8,10,12) by (rule full_participation_average)
  with assms(14) have h1: "h1 =
    h\<lparr>buffer := ?avg1, model := ?avg1, buffer_cnt := 0,
       client_buffer_cache := replicate (nat (client_num h)) None, update_flag := True\<rparr>"
    by simp
  let ?s = "start_round h1"
  have a: "client_buffer_cache ?s = replicate (nat (client_num ?s)) None"
    and b: "buffer_cnt ?s = 0" and c: "round_num ?s = client_num ?s"
    and d: "list_all (\<lambda>m. 1 \<le> fst m \<and> fst m \<le> client_num ?s) ms2"
    and e: "list_all (\<lambda>m. length (snd m) = length (buffer ?s)) ms2"
    and f: "int (length ms2) = client_num ?s"
    using assms(3,7,9,11) by (simp_all add: h1 start_round_def)
  from full_participation_average[OF a b c assms(5) d e f assms(13)]
  have "receive_all ?s ms2 =
    Inr (h\<lparr>buffer := map (\<lambda>j. (\<Sum>m\<leftarrow>ms2. snd m ! j) / real (length ms2))
                         [0..<length (buffer h)],
             model := map (\<lambda>j. (\<Sum>m\<leftarrow>ms2. snd m ! j) / real (length ms2))
                        [0..<length (buffer h)],
             buffer_cnt := 0,
             client_buffer_cache := replicate (nat (client_num h)) None,
             update_flag := True\<rparr>)"
    by (simp add: h1 start_round_def)
  then show ?thesis by (simp add: h1 start_round_def is_updated_def)
qed

subsection \<open>The result of a round and the order of arrival\<close>

lemma full_participation_any_order:
  assumes "client_buffer_cache h = replicate (nat (client_num h)) None"
    and "buffer_cnt h = 0"
    and "round_num h = client_num h"
    and "distinct (map fst ms)"
    and "list_all (\<lambda>m. 1 \<le> fst m \<and> fst m \<le> client_num h) ms"
    and "list_all (\<lambda>m. length (snd m) = length (buffer h)) ms"
    and "int (length ms) = client_num h"
    and "ms \<noteq> []"
    and "mset ms' = mset ms"
  shows "receive_all h ms' =
    Inr (h\<lparr>buffer := map (\<lambda>j. (\<Sum>m\<leftarrow>ms. snd m ! j) / real (length ms)) [0..<length (buffer h)],
           model := map (\<lambda>j. (\<Sum>m\<leftarrow>ms. snd m ! j) / real (length ms)) [0..<length (buffer h)],
           buffer_cnt := 0,
           client_buffer_cache := replicate (nat (client_num h)) None,
           update_flag := True\<rparr>)"
proof -
  from assms(9) have s: "set ms' = set ms" by (rule mset_eq_setD)
  from assms(9) have l: "length ms' = length ms" by (rule mset_eq_length)
  from assms(9) have "mset (map fst ms') = mset (map fst ms)" by simp
  then have "distinct (map fst ms') = distinct (map fst ms)" by (rule mset_eq_imp_distinct_iff)
  with assms(4) have 4: "distinct (map fst ms')" by simp
  have 5: "list_all (\<lambda>m. 1 \<le> fst m \<and> fst m \<le> client_num h) ms'"
    using assms(5) s by (simp add: list_all_iff)
  have 6: "list_all (\<lambda>m. length (snd m) = length (buffer h)) ms'"
    using assms(6) s by (simp add: list_all_iff)
  have 7: "int (length ms') = client_num h" using assms(7) l by simp
  have 8: "ms' \<noteq> []" using assms(8) l by auto
  have sum: "(\<Sum>m\<leftarrow>ms'. snd m ! j) = (\<Sum>m\<leftarrow>ms. snd m ! j)" for j
  proof -
    have "mset (map (\<lambda>m. snd m ! j) ms') = mset (map (\<lambda>m. snd m ! j) ms)"
      using assms(9) by simp
    then have "sum_mset (mset (map (\<lambda>m. snd m ! j) ms')) =
        sum_mset (mset (map (\<lambda>m. snd m ! j) ms))"
      by (rule arg_cong)
    then show ?thesis by (simp only: sum_mset_sum_list)
  qed
  from full_participation_average[OF assms(1,2,3) 4 5 6 7 8]
  show ?thesis by (simp only: sum l)
qed

text \<open>
  C6. Every delivery order of quorum-many \<open>ParameterUpdate\<close> messages of distinct client ranks
  ends the round with the same buffer, which depends on the messages only. The code does this
  when the quorum is the number of clients: from the start of a round with \<open>round_num =
  client_num\<close>, every order \<open>ms'\<close> of the messages \<open>ms\<close> completes the round, and buffer and model
  are the elementwise mean of the payloads of \<open>ms\<close>. With a smaller quorum it does not (the
  defect of C1): with four clients and ratio one half, the two messages of ranks 1 and 2 raise
  \<^verbatim>\<open>TypeError\<close> at the second delivery in either order, and the buffer keeps its old value.
\<close>

theorem quorum_mean_any_order:
  "(client_buffer_cache h = replicate (nat (client_num h)) None \<and>
    buffer_cnt h = 0 \<and>
    round_num h = client_num h \<and>
    distinct (map fst ms) \<and>
    list_all (\<lambda>m. 1 \<le> fst m \<and> fst m \<le> client_num h) ms \<and>
    list_all (\<lambda>m. length (snd m) = length (buffer h)) ms \<and>
    int (length ms) = client_num h \<and>
    ms \<noteq> [] \<and>
    mset ms' = mset ms \<longrightarrow>
    receive_all h ms' =
      Inr (h\<lparr>buffer := map (\<lambda>j. (\<Sum>m\<leftarrow>ms. snd m ! j) / real (length ms))
                         [0..<length (buffer h)],
             model := map (\<lambda>j. (\<Sum>m\<leftarrow>ms. snd m ! j) / real (length ms))
                        [0..<length (buffer h)],
             buffer_cnt := 0,
             client_buffer_cache := replicate (nat (client_num h)) None,
             update_flag := True\<rparr>)) \<and>
   receive_all (SyncParameterServerHandler_init [0, 0] 4 False (1 / 2))
      [(1, [1, 2]), (2, [3, 4])] =
     Inl (TypeError,
       \<lparr>model = [0, 0], buffer = [0, 0], cuda = False, client_num = 4, select_ratio = 1 / 2,
        round_num = 2, client_buffer_cache = [Some [1, 2], Some [3, 4], None, None],
        buffer_cnt = 2, update_flag = False\<rparr>) \<and>
   receive_all (SyncParameterServerHandler_init [0, 0] 4 False (1 / 2))
      [(2, [3, 4]), (1, [1, 2])] =
     Inl (TypeError,
       \<lparr>model = [0, 0], buffer = [0, 0], cuda = False, client_num = 4, select_ratio = 1 / 2,
        round_num = 2, client_buffer_cache = [Some [1, 2], Some [3, 4], None, None],
        buffer_cnt = 2, update_flag = False\<rparr>)"
proof (intro conjI impI)
  assume "client_buffer_cache h = replicate (nat (client_num h)) None \<and>
    buffer_cnt h = 0 \<and>
    round_num h = client_num h \<and>
    distinct (map fst ms) \<and>
    list_all (\<lambda>m. 1 \<le> fst m \<and> fst m \<le> client_num h) ms \<and>
    list_all (\<lambda>m. length (snd m) = length (buffer h)) ms \<and>
    int (length ms) = client_num h \<and>
    ms \<noteq> [] \<and>
    mset ms' = mset ms"
  then show "receive_all h ms' =
      Inr (h\<lparr>buffer := map (\<lambda>j. (\<Sum>m\<leftarrow>ms. snd m ! j) / real (length ms))
                         [0..<length (buffer h)],
             model := map (\<lambda>j. (\<Sum>m\<leftarrow>ms. snd m ! j) / real (length ms))
                        [0..<length (buffer h)],
             buffer_cnt := 0,
             client_buffer_cache := replicate (nat (client_num h)) None,
             update_flag := True\<rparr>)"
    by (intro full_participation_any_order) simp_all
next
  show "receive_all (SyncParameterServerHandler_init [0, 0] 4 False (1 / 2))
      [(1, [1, 2]), (2, [3, 4])] =
     Inl (TypeError,
       \<lparr>model = [0, 0], buffer = [0, 0], cuda = False, client_num = 4, select_ratio = 1 / 2,
        round_num = 2, client_buffer_cache = [Some [1, 2], Some [3, 4], None, None],
        buffer_cnt = 2, update_flag = False\<rparr>)"
    by (simp add: sync_eval)
next
  show "receive_all (SyncParameterServerHandler_init [0, 0] 4 False (1 / 2))
      [(2, [3, 4]), (1, [1, 2])] =
     Inl (TypeError,
       \<lparr>model = [0, 0], buffer = [0, 0], cuda = False, client_num = 4, select_ratio = 1 / 2,
        round_num = 2, client_buffer_cache = [Some [1, 2], Some [3, 4], None, None],
        buffer_cnt = 2, update_flag = False\<rparr>)"
    by (simp add: sync_eval)
qed

theorem quorum_mean_any_order_witness:
  "client_buffer_cache (SyncParameterServerHandler_init [0, 0] 2 False 1) =
     replicate (nat (client_num (SyncParameterServerHandler_init [0, 0] 2 False 1))) None \<and>
   buffer_cnt (SyncParameterServerHandler_init [0, 0] 2 False 1) = 0 \<and>
   round_num (SyncParameterServerHandler_init [0, 0] 2 False 1) =
     client_num (SyncParameterServerHandler_init [0, 0] 2 False 1) \<and>
   distinct (map fst [(1 :: int, [1, 2 :: real]), (2, [3, 4])]) \<and>
   list_all (\<lambda>m. 1 \<le> fst m \<and>
       fst m \<le> client_num (SyncParameterServerHandler_init [0, 0] 2 False 1))
     [(1, [1, 2 :: real]), (2, [3, 4])] \<and>
   list_all (\<lambda>m. length (snd m) =
       length (buffer (SyncParameterServerHandler_init [0, 0] 2 False 1)))
     [(1 :: int, [1, 2 :: real]), (2, [3, 4])] \<and>
   int (length [(1 :: int, [1, 2 :: real]), (2, [3, 4])]) =
     client_num (SyncParameterServerHandler_init [0, 0] 2 False 1) \<and>
   [(1 :: int, [1, 2 :: real]), (2, [3, 4])] \<noteq> [] \<and>
   mset [(2 :: int, [3, 4 :: real]), (1, [1, 2])] = mset [(1, [1, 2]), (2, [3, 4])] \<and>
   receive_all (SyncParameterServerHandler_init [0, 0] 2 False 1) [(2, [3, 4]), (1, [1, 2])] =
     Inr \<lparr>model = [2, 3], buffer = [2, 3], cuda = False, client_num = 2, select_ratio = 1,
          round_num = 2, client_buffer_cache = [None, None], buffer_cnt = 0,
          update_flag = True\<rparr>"
proof -
  let ?h = "SyncParameterServerHandler_init [0, 0] 2 False 1"
  let ?ms = "[(1 :: int, [1, 2 :: real]), (2, [3, 4])]"
  let ?ms' = "[(2 :: int, [3, 4 :: real]), (1, [1, 2])]"
  have hyps: "client_buffer_cache ?h = replicate (nat (client_num ?h)) None \<and>
    buffer_cnt ?h = 0 \<and>
    round_num ?h = client_num ?h \<and>
    distinct (map fst ?ms) \<and>
    list_all (\<lambda>m. 1 \<le> fst m \<and> fst m \<le> client_num ?h) ?ms \<and>
    list_all (\<lambda>m. length (snd m) = length (buffer ?h)) ?ms \<and>
    int (length ?ms) = client_num ?h \<and>
    ?ms \<noteq> [] \<and>
    mset ?ms' = mset ?ms"
    by (simp add: SyncParameterServerHandler_init_def py_int_def double_of_int
        ravel_model_params_def)
  from quorum_mean_any_order[of ?h ?ms ?ms', THEN conjunct1, THEN mp, OF hyps]
  have "receive_all ?h ?ms' =
      Inr (?h\<lparr>buffer := map (\<lambda>j. (\<Sum>m\<leftarrow>?ms. snd m ! j) / real (length ?ms))
                         [0..<length (buffer ?h)],
             model := map (\<lambda>j. (\<Sum>m\<leftarrow>?ms. snd m ! j) / real (length ?ms))
                        [0..<length (buffer ?h)],
             buffer_cnt := 0,
             client_buffer_cache := replicate (nat (client_num ?h)) None,
             update_flag := True\<rparr>)" .
  also have "\<dots> =
     Inr \<lparr>model = [2, 3], buffer = [2, 3], cuda = False, client_num = 2, select_ratio = 1,
          round_num = 2, client_buffer_cache = [None, None], buffer_cnt = 0,
          update_flag = True\<rparr>"
    by (simp add: SyncParameterServerHandler_init_def py_int_def double_of_int
        ravel_model_params_def numeral_eq_Suc)
  finally show ?thesis using hyps by blast
qed

subsection \<open>Unexpected and unimplemented kinds\<close>

text \<open>
  C7, as the code has it. The synchronous handler fails with an explicit error on every kind
  other than \<open>ParameterUpdate\<close>. The asynchronous handler does not fail on a kind outside
  \<open>ParameterUpdate\<close>, \<open>ParameterRequest\<close>, \<open>GradientUpdate\<close> and \<open>Exit\<close>: its last branch ignores
  the message, \<^verbatim>\<open>receive\<close> returns and the handler is unchanged.
\<close>

theorem unexpected_kind:
  "(message_code \<noteq> ParameterUpdate \<longrightarrow>
      receive h sender message_code payload = Inl (Exception ''Undefined message type!'', h)) \<and>
   (message_code \<notin> {ParameterUpdate, ParameterRequest, GradientUpdate, Exit} \<longrightarrow>
      async_receive a sender message_code payload = Inr a)"
  by (simp add: receive_def async_receive_def)

theorem unexpected_kind_witness:
  "OtherCode 0 \<noteq> ParameterUpdate \<and>
   receive (SyncParameterServerHandler_init [0, 0] 2 False 1) 1 (OtherCode 0) [1, 2] =
     Inl (Exception ''Undefined message type!'',
          SyncParameterServerHandler_init [0, 0] 2 False 1) \<and>
   OtherCode 0 \<notin> {ParameterUpdate, ParameterRequest, GradientUpdate, Exit} \<and>
   async_receive (AsyncParameterServerHandler_init [0, 0] False) 1 (OtherCode 0) [1, 2] =
     Inr (AsyncParameterServerHandler_init [0, 0] False)"
  using unexpected_kind[of "OtherCode 0" "SyncParameterServerHandler_init [0, 0] 2 False 1" 1
      "[1, 2]" "AsyncParameterServerHandler_init [0, 0] False"]
  by simp

text \<open>
  C7 as stated fails: a message of a kind outside the four, delivered to the asynchronous
  handler, is not answered by an error.
\<close>

theorem async_unknown_kind_ignored:
  "OtherCode 0 \<notin> {ParameterUpdate, ParameterRequest, GradientUpdate, Exit} \<and>
   \<not> isl (async_receive (AsyncParameterServerHandler_init [0, 0] False) 1 (OtherCode 0) [1, 2])"
  by (simp add: async_receive_def)

text \<open>
  C8. For every kind other than \<open>ParameterUpdate\<close> (\<open>ParameterRequest\<close>, \<open>GradientUpdate\<close> and
  \<open>Exit\<close> among them) \<^verbatim>\<open>receive\<close> of the synchronous handler raises
  \<^verbatim>\<open>Exception("Undefined message type!")\<close> and the handler is unchanged.
\<close>

theorem sync_undefined_message_type:
  "message_code \<noteq> ParameterUpdate \<Longrightarrow>
     receive h sender message_code payload = Inl (Exception ''Undefined message type!'', h)"
  by (simp add: receive_def)

theorem sync_undefined_message_type_witness:
  "Exit \<noteq> ParameterUpdate \<and> GradientUpdate \<noteq> ParameterUpdate \<and>
   ParameterRequest \<noteq> ParameterUpdate \<and>
   receive (SyncParameterServerHandler_init [0, 0] 2 False 1) 1 Exit [1, 2] =
     Inl (Exception ''Undefined message type!'',
          SyncParameterServerHandler_init [0, 0] 2 False 1) \<and>
   receive (SyncParameterServerHandler_init [0, 0] 2 False 1) 1 GradientUpdate [1, 2] =
     Inl (Exception ''Undefined message type!'',
          SyncParameterServerHandler_init [0, 0] 2 False 1) \<and>
   receive (SyncParameterServerHandler_init [0, 0] 2 False 1) 1 ParameterRequest [1, 2] =
     Inl (Exception ''Undefined message type!'',
          SyncParameterServerHandler_init [0, 0] 2 False 1)"
  using sync_undefined_message_type[of Exit "SyncParameterServerHandler_init [0, 0] 2 False 1"
      1 "[1, 2]"]
    sync_undefined_message_type[of GradientUpdate
      "SyncParameterServerHandler_init [0, 0] 2 False 1" 1 "[1, 2]"]
    sync_undefined_message_type[of ParameterRequest
      "SyncParameterServerHandler_init [0, 0] 2 False 1" 1 "[1, 2]"]
  by simp

text \<open>
  C9. \<^verbatim>\<open>receive\<close> and \<^verbatim>\<open>update\<close> of the abstract handler raise \<^verbatim>\<open>NotImplementedError\<close>, and so
  does the asynchronous handler on \<open>GradientUpdate\<close>, which leaves the handler (buffer and model
  included) unchanged.
\<close>

theorem not_implemented:
  "ParameterServerHandler_receive h = Inl (NotImplementedError, h) \<and>
   ParameterServerHandler_update h model_list = Inl (NotImplementedError, h) \<and>
   async_receive a sender GradientUpdate parameter = Inl (NotImplementedError, a)"
  by (simp add: ParameterServerHandler_receive_def ParameterServerHandler_update_def
      async_receive_def)

subsection \<open>The sender's rank is not validated\<close>

text \<open>
  C10. In a federation of at least one client, a \<open>ParameterUpdate\<close> with sender 0 is not
  rejected: the index \<open>-1\<close> is the last slot of the cache, and \<^verbatim>\<open>receive\<close> does exactly what it
  does for sender \<open>client_num\<close>. When that slot is empty the payload is stored there and counted:
  the counter grows by one, and when it thereby reaches the quorum the aggregation runs.
\<close>

theorem sender_zero_is_last_client:
  assumes "length (client_buffer_cache h) = nat (client_num h)" and "1 \<le> client_num h"
  shows "py_index (length (client_buffer_cache h)) (0 - 1) = Some (nat (client_num h) - 1) \<and>
    receive h 0 ParameterUpdate p = receive h (client_num h) ParameterUpdate p \<and>
    (client_buffer_cache h ! (nat (client_num h) - 1) = None \<and>
       buffer_cnt h + 1 \<noteq> round_num h \<longrightarrow>
     receive h 0 ParameterUpdate p =
       Inr (h\<lparr>buffer_cnt := buffer_cnt h + 1,
              client_buffer_cache :=
                (client_buffer_cache h)[nat (client_num h) - 1 := Some p]\<rparr>)) \<and>
    (client_buffer_cache h ! (nat (client_num h) - 1) = None \<and>
       buffer_cnt h + 1 = round_num h \<longrightarrow>
     receive h 0 ParameterUpdate p =
       aggregate (h\<lparr>buffer_cnt := buffer_cnt h + 1,
              client_buffer_cache :=
                (client_buffer_cache h)[nat (client_num h) - 1 := Some p]\<rparr>))"
proof -
  from assms have i: "py_index (length (client_buffer_cache h)) (0 - 1) =
      Some (nat (client_num h) - 1)"
    by (simp add: py_index_def nat_diff_distrib)
  from assms have j: "py_index (length (client_buffer_cache h)) (client_num h - 1) =
      Some (nat (client_num h) - 1)"
    by (simp add: py_index_def nat_diff_distrib)
  from i j show ?thesis
    by (simp add: receive_def Let_def)
qed

theorem sender_zero_is_last_client_witness:
  "length (client_buffer_cache (SyncParameterServerHandler_init [0, 0] 2 False 1)) =
     nat (client_num (SyncParameterServerHandler_init [0, 0] 2 False 1)) \<and>
   1 \<le> client_num (SyncParameterServerHandler_init [0, 0] 2 False 1) \<and>
   client_buffer_cache (SyncParameterServerHandler_init [0, 0] 2 False 1) !
     (nat (client_num (SyncParameterServerHandler_init [0, 0] 2 False 1)) - 1) = None \<and>
   buffer_cnt (SyncParameterServerHandler_init [0, 0] 2 False 1) + 1 \<noteq>
     round_num (SyncParameterServerHandler_init [0, 0] 2 False 1) \<and>
   receive (SyncParameterServerHandler_init [0, 0] 2 False 1) 0 ParameterUpdate [1, 2] =
     Inr \<lparr>model = [0, 0], buffer = [0, 0], cuda = False, client_num = 2, select_ratio = 1,
          round_num = 2, client_buffer_cache = [None, Some [1, 2]], buffer_cnt = 1,
          update_flag = False\<rparr>"
proof -
  let ?h = "SyncParameterServerHandler_init [0, 0] 2 False 1"
  have 1: "length (client_buffer_cache ?h) = nat (client_num ?h)"
    and 2: "1 \<le> client_num ?h"
    and 3: "client_buffer_cache ?h ! (nat (client_num ?h) - 1) = None"
    and 4: "buffer_cnt ?h + 1 \<noteq> round_num ?h"
    by (simp_all add: SyncParameterServerHandler_init_def py_int_def double_of_int numeral_eq_Suc)
  from sender_zero_is_last_client[OF 1 2, of "[1, 2]"] 3 4
  have "receive ?h 0 ParameterUpdate [1, 2] =
      Inr (?h\<lparr>buffer_cnt := buffer_cnt ?h + 1,
              client_buffer_cache :=
                (client_buffer_cache ?h)[nat (client_num ?h) - 1 := Some [1, 2]]\<rparr>)"
    by blast
  also have "\<dots> =
     Inr \<lparr>model = [0, 0], buffer = [0, 0], cuda = False, client_num = 2, select_ratio = 1,
          round_num = 2, client_buffer_cache = [None, Some [1, 2]], buffer_cnt = 1,
          update_flag = False\<rparr>"
    by (simp add: SyncParameterServerHandler_init_def py_int_def double_of_int ravel_model_params_def
        numeral_eq_Suc)
  finally show ?thesis using 1 2 3 4 by blast
qed

end
